theory Spec2Isabelle
  imports Main
begin

section \<open>JavaScript values and exceptions\<close>

text \<open>
  A JavaScript value of static type \<open>T | null | undefined\<close>. The nullish coalescing
  operator \<open>a ?? b\<close> yields \<open>b\<close> exactly when \<open>a\<close> is \<open>null\<close> or \<open>undefined\<close>.
\<close>

datatype 'a jsval = Undefined | Null | Val 'a

fun coalesce :: "'a jsval \<Rightarrow> 'a jsval \<Rightarrow> 'a jsval" where
  "coalesce (Val x) b = Val x"
| "coalesce Null b = b"
| "coalesce Undefined b = b"

text \<open>
  What a \<open>throw\<close> carries: the runtime's own \<open>TypeError\<close> (reading a property of
  \<open>null\<close> or \<open>undefined\<close>) and \<open>ReferenceError\<close> (an undeclared global), or any value
  thrown by a function supplied by the caller.
\<close>

datatype 'e thrown = TypeError | ReferenceError | Thrown 'e

section \<open>utils.ts\<close>

subsection \<open>safeParse\<close>

text \<open>
  A parser is the \<open>parse\<close> member of a \<open>Parser\<close>: a function from the raw string
  that returns a value or throws. \<open>warn\<close> (of \<open>./debug\<close>) only logs; a call to it is
  recorded with its arguments: the format string, the raw value, the error caught and
  the key (\<open>None\<close> when the optional argument is not given).
\<close>

type_synonym ('e, 'a) parser = "string \<Rightarrow> 'e thrown + 'a jsval"

datatype 'e log_entry = Warn string string "'e thrown" "string option"

text \<open>The condition \<open>key ? ... : ''\<close>: an absent key and the empty string are falsy.\<close>

fun truthy_key :: "string option \<Rightarrow> bool" where
  "truthy_key None = False"
| "truthy_key (Some k) = (k \<noteq> [])"

definition warn_format :: "string option \<Rightarrow> string" where
  "warn_format key =
     ''[nuqs] Error while parsing value `%s`: %O'' @
       (if truthy_key key then '' (for key `%s`)'' else [])"

text \<open>
  \<^verbatim>\<open>
  export function safeParse<T>(parser, value: string, key?: string) {
    try { return parser(value) }
    catch (error) { warn(..., value, error, key); return null }
  }
  \<close>
  The result is what the call returns or throws, with the log as left by the call.
\<close>

definition safeParse ::
  "('e, 'a) parser \<Rightarrow> string \<Rightarrow> string option \<Rightarrow> 'e log_entry list
     \<Rightarrow> ('e thrown + 'a jsval) \<times> 'e log_entry list" where
  "safeParse parser v key log =
     (case parser v of
        Inr r \<Rightarrow> (Inr r, log)
      | Inl error \<Rightarrow> (Inr Null, log @ [Warn (warn_format key) v error key]))"

subsection \<open>getDefaultThrottle\<close>

text \<open>
  What the function reads of its environment: whether the global \<open>window\<close> exists,
  whether \<open>window.GestureEvent\<close> is truthy, whether the global \<open>navigator\<close> exists, and
  \<open>navigator.userAgent\<close> (\<open>None\<close> when it is \<open>undefined\<close>).
\<close>

record environment =
  window_defined :: bool
  gestureEvent :: bool
  navigator_defined :: bool
  userAgent :: "string option"

text \<open>
  The regular expression \<^verbatim>\<open>/version\/([\d\.]+) safari/i\<close>. Letters match without regard
  to case; the group is a non-empty greedy run of digits and dots; the run is maximal
  in every match, since the character after the group is a space, which the group
  does not contain. \<open>String.prototype.match\<close> returns the leftmost match, or \<open>null\<close>.
\<close>

definition to_lower :: "char \<Rightarrow> char" where
  "to_lower c =
     (case map_of (zip ''ABCDEFGHIJKLMNOPQRSTUVWXYZ'' ''abcdefghijklmnopqrstuvwxyz'') c of
        Some l \<Rightarrow> l
      | None \<Rightarrow> c)"

definition ci_prefix :: "string \<Rightarrow> string \<Rightarrow> bool" where
  "ci_prefix p s =
     (length p \<le> length s \<and> map to_lower (take (length p) s) = map to_lower p)"

definition digit_or_dot :: "char \<Rightarrow> bool" where
  "digit_or_dot c = (c \<in> set ''0123456789.'')"

definition match_here :: "string \<Rightarrow> string option" where
  "match_here s =
     (if ci_prefix ''version/'' s then
        (let rest = drop 8 s;
             captured = takeWhile digit_or_dot rest;
             after = dropWhile digit_or_dot rest
         in if captured \<noteq> [] \<and> ci_prefix '' safari'' after then Some captured else None)
      else None)"

fun match_version :: "string \<Rightarrow> string option" where
  "match_version [] = None"
| "match_version (c # cs) =
     (case match_here (c # cs) of
        Some captured \<Rightarrow> Some captured
      | None \<Rightarrow> match_version cs)"

text \<open>
  The body of the \<open>try\<close> block. \<open>navigator.userAgent?.match(...)\<close> is \<open>undefined\<close> for an
  undefined user agent and \<open>null\<close> when nothing matches; \<open>match![1]\<close> then throws a
  \<open>TypeError\<close>. The comparison \<open>parseFloat(match[1]) >= 17\<close> is in floating point: it is
  the parameter \<open>parseFloat_ge_17\<close>, the test as a predicate of the matched group.
\<close>

definition throttle_try :: "(string \<Rightarrow> bool) \<Rightarrow> environment \<Rightarrow> unit thrown + nat" where
  "throttle_try parseFloat_ge_17 env =
     (if \<not> navigator_defined env then Inl ReferenceError
      else case userAgent env of
        None \<Rightarrow> Inl TypeError
      | Some ua \<Rightarrow>
          (case match_version ua of
             None \<Rightarrow> Inl TypeError
           | Some captured \<Rightarrow> Inr (if parseFloat_ge_17 captured then 120 else 320)))"

definition getDefaultThrottle :: "(string \<Rightarrow> bool) \<Rightarrow> environment \<Rightarrow> unit thrown + nat" where
  "getDefaultThrottle parseFloat_ge_17 env =
     (if \<not> window_defined env then Inr 50
      else if \<not> gestureEvent env then Inr 50
      else case throttle_try parseFloat_ge_17 env of
        Inr ms \<Rightarrow> Inr ms
      | Inl _ \<Rightarrow> Inr 320)"

section \<open>useQueryStates.ts\<close>

subsection \<open>Options and the key map\<close>

text \<open>
  \<open>Options\<close> (of \<open>./defs\<close>): every member is optional, \<open>None\<close> is an absent member.
  \<open>throttleMs\<close> is a number and \<open>startTransition\<close> a function; both are only passed
  on, so their types are parameters.
\<close>

datatype history_mode = Push | Replace

record ('n, 't) Options =
  history :: "history_mode option"
  scroll :: "bool option"
  shallow :: "bool option"
  throttleMs :: "'n option"
  startTransition :: "'t option"
  clearOnDefault :: "bool option"

text \<open>
  \<open>KeyMapValue\<close>: a parser with an optional \<open>serialize\<close>, an optional \<open>eq\<close> and an
  optional \<open>defaultValue\<close> (\<open>Undefined\<close> when it is not declared). The key map is a
  plain object, given by its own entries in the order of \<open>Object.keys\<close>.
\<close>

record ('e, 'v) KeyMapValue =
  parse :: "('e, 'v) parser"
  serialize :: "('v \<Rightarrow> string) option"
  eq :: "('v jsval \<Rightarrow> 'v jsval \<Rightarrow> bool) option"
  defaultValue :: "'v jsval"

type_synonym ('e, 'v) UseQueryStatesKeysMap = "(string \<times> ('e, 'v) KeyMapValue) list"

text \<open>\<open>a ?? b\<close> and a destructuring default, for a member that is absent or a value.\<close>

fun or_else :: "'a option \<Rightarrow> 'a \<Rightarrow> 'a" where
  "or_else (Some x) d = x"
| "or_else None d = d"

subsection \<open>Property access on plain objects\<close>

text \<open>
  \<open>keyMap[key]\<close> reads an own property of the key map or, failing that, a property
  inherited from \<open>Object.prototype\<close>. The names that \<open>Object.prototype\<close> defines:
\<close>

definition object_prototype_names :: "string list" where
  "object_prototype_names =
     [''constructor'', ''__defineGetter__'', ''__defineSetter__'', ''hasOwnProperty'',
      ''__lookupGetter__'', ''__lookupSetter__'', ''isPrototypeOf'',
      ''propertyIsEnumerable'', ''toString'', ''valueOf'', ''__proto__'',
      ''toLocaleString'']"

text \<open>
  An inherited property is a function of \<open>Object.prototype\<close> (for \<open>__proto__\<close>, the
  object \<open>Object.prototype\<close> itself): a truthy value without the members
  \<open>defaultValue\<close>, \<open>eq\<close> and \<open>serialize\<close>, and whose member \<open>parse\<close> is \<open>undefined\<close>, so
  that calling it throws a \<open>TypeError\<close>.
\<close>

definition inherited_member :: "('e, 'v) KeyMapValue" where
  "inherited_member =
     \<lparr>parse = (\<lambda>s. Inl TypeError), serialize = None, eq = None, defaultValue = Undefined\<rparr>"

text \<open>\<open>keyMap[key]\<close>; \<open>None\<close> is \<open>undefined\<close>.\<close>

definition keyMap_get ::
  "('e, 'v) UseQueryStatesKeysMap \<Rightarrow> string \<Rightarrow> ('e, 'v) KeyMapValue option" where
  "keyMap_get keyMap key =
     (case map_of keyMap key of
        Some config \<Rightarrow> Some config
      | None \<Rightarrow> if key \<in> set object_prototype_names then Some inherited_member else None)"

text \<open>
  The object that \<open>parseMap\<close> builds: its own properties and its prototype. It starts
  as \<open>{}\<close>, whose prototype is \<open>Object.prototype\<close>.
\<close>

datatype 'v prototype = Object_prototype | Null_prototype | Value_prototype 'v

record 'v js_object =
  own :: "string \<rightharpoonup> 'v jsval"
  prototype :: "'v prototype"

definition empty_object :: "'v js_object" where
  "empty_object = \<lparr>own = Map.empty, prototype = Object_prototype\<rparr>"

text \<open>
  The assignment \<open>obj[key] = v\<close>. Under the name \<open>__proto__\<close>, an object that inherits the
  accessor of \<open>Object.prototype\<close> and has no own property of that name runs the
  setter: \<open>null\<close> or an object becomes the prototype, any other value is dropped, and
  no own property is stored. Every other assignment stores an own property.
  Whether a value of the key's type is an object is the parameter \<open>is_object\<close>. A
  value installed as the prototype is taken to inherit from \<open>Object.prototype\<close> and
  to have no accessor and no read-only property under a key assigned later.
\<close>

definition assign_property ::
  "('v \<Rightarrow> bool) \<Rightarrow> 'v js_object \<Rightarrow> string \<Rightarrow> 'v jsval \<Rightarrow> 'v js_object" where
  "assign_property is_object obj key v =
     (if key = ''__proto__'' \<and> own obj key = None \<and> prototype obj \<noteq> Null_prototype then
        (case v of
           Null \<Rightarrow> obj\<lparr>prototype := Null_prototype\<rparr>
         | Val x \<Rightarrow> if is_object x then obj\<lparr>prototype := Value_prototype x\<rparr> else obj
         | Undefined \<Rightarrow> obj)
      else obj\<lparr>own := (own obj)(key \<mapsto> v)\<rparr>)"

subsection \<open>parseMap\<close>

text \<open>
  \<open>URLSearchParams\<close> as the list of its pairs; \<open>get\<close> returns the first value of the
  name, or \<open>null\<close>. \<open>searchParams?.get(key) ?? null\<close> is \<open>None\<close> for \<open>null\<close>.
\<close>

definition searchParams_get :: "(string \<times> string) list option \<Rightarrow> string \<Rightarrow> string option" where
  "searchParams_get searchParams key =
     (case searchParams of None \<Rightarrow> None | Some pairs \<Rightarrow> map_of pairs key)"

text \<open>\<open>queueQuery ?? urlQuery\<close>, a string or \<open>null\<close>.\<close>

fun query_of :: "string jsval \<Rightarrow> string option \<Rightarrow> string option" where
  "query_of (Val q) urlQuery = Some q"
| "query_of Null urlQuery = urlQuery"
| "query_of Undefined urlQuery = urlQuery"

text \<open>
  \<^verbatim>\<open>
  return Object.keys(keyMap).reduce((obj, key) => {
    const { defaultValue, parse } = keyMap[key]!
    const urlQuery = searchParams?.get(key) ?? null
    const queueQuery = getQueuedValue(key)
    const query = queueQuery ?? urlQuery
    const value = query === null ? null : safeParse(parse, query, key)
    obj[key as keyof KeyMap] = value ?? defaultValue ?? null
    return obj
  }, {} as Values<KeyMap>)
  \<close>
  \<open>getQueuedValue\<close> (of \<open>./update-queue\<close>) is a parameter: what it returns for a key.
  Destructuring \<open>keyMap[key]\<close> throws a \<open>TypeError\<close> when it is \<open>undefined\<close>. The
  accumulator is the object built so far, with the log of warnings.
\<close>

fun parseMap_reduce ::
  "('v \<Rightarrow> bool) \<Rightarrow> ('e, 'v) UseQueryStatesKeysMap \<Rightarrow> (string \<times> string) list option
     \<Rightarrow> (string \<Rightarrow> string jsval) \<Rightarrow> string list
     \<Rightarrow> 'v js_object \<times> 'e log_entry list
     \<Rightarrow> 'e thrown + 'v js_object \<times> 'e log_entry list" where
  "parseMap_reduce is_object keyMap searchParams getQueued [] acc = Inr acc"
| "parseMap_reduce is_object keyMap searchParams getQueued (key # keys) (obj, log) =
     (case keyMap_get keyMap key of
        None \<Rightarrow> Inl TypeError
      | Some config \<Rightarrow>
          (let urlQuery = searchParams_get searchParams key;
               queueQuery = getQueued key;
               query = query_of queueQuery urlQuery;
               (result, log') =
                 (case query of
                    None \<Rightarrow> (Inr Null, log)
                  | Some q \<Rightarrow> safeParse (parse config) q (Some key) log)
           in case result of
                Inl e \<Rightarrow> Inl e
              | Inr v \<Rightarrow>
                  parseMap_reduce is_object keyMap searchParams getQueued keys
                    (assign_property is_object obj key
                       (coalesce (coalesce v (defaultValue config)) Null),
                     log')))"

definition parseMap ::
  "('v \<Rightarrow> bool) \<Rightarrow> ('e, 'v) UseQueryStatesKeysMap \<Rightarrow> (string \<times> string) list option
     \<Rightarrow> (string \<Rightarrow> string jsval) \<Rightarrow> 'e log_entry list
     \<Rightarrow> 'e thrown + 'v js_object \<times> 'e log_entry list" where
  "parseMap is_object keyMap searchParams getQueued log =
     parseMap_reduce is_object keyMap searchParams getQueued (map fst keyMap)
       (empty_object, log)"

text \<open>
  Modelled from the spec: the Update Queue and its \<open>peek\<close>, which is \<open>getQueuedValue\<close>
  of \<open>./update-queue\<close>. The queue holds at most one pending value per key, a string
  to write or \<open>null\<close> to remove the parameter; \<open>peek\<close> returns the pending value of a
  key, or a "not pending" sentinel (\<open>undefined\<close> here).
\<close>

type_synonym update_queue = "string \<rightharpoonup> string option"

definition getQueuedValue :: "update_queue \<Rightarrow> string \<Rightarrow> string jsval" where
  "getQueuedValue queue key =
     (case queue key of
        None \<Rightarrow> Undefined
      | Some None \<Rightarrow> Null
      | Some (Some s) \<Rightarrow> Val s)"

subsection \<open>The update function\<close>

text \<open>
  The calls \<open>update\<close> makes to its collaborators (\<open>emitter.emit\<close> of \<open>./sync\<close>,
  \<open>enqueueQueryStringUpdate\<close> and \<open>scheduleFlushToURL\<close> of \<open>./update-queue\<close>): each call
  with its arguments, in the order made. What the collaborators do with a call is
  not part of this model. The serializer passed on is \<open>config.serialize ?? String\<close>.
  Calls to \<open>debug\<close> are not recorded.
\<close>

datatype 'v serializer = Custom "'v \<Rightarrow> string" | String_constructor

datatype ('v, 'n, 't, 'r) call =
    Emit string "'v jsval"
  | EnqueueQueryStringUpdate string "'v jsval" "'v serializer" "('n, 't) Options"
  | ScheduleFlushToURL 'r

text \<open>
  The options object passed to \<open>enqueueQueryStringUpdate\<close>. The hook's own options are
  destructured with defaults (\<open>history = 'replace'\<close>, \<open>scroll = false\<close>, \<open>shallow = true\<close>,
  \<open>throttleMs = FLUSH_RATE_LIMIT_MS\<close>, \<open>clearOnDefault = false\<close>); \<open>FLUSH_RATE_LIMIT_MS\<close>
  is a constant of \<open>./update-queue\<close>, a parameter here.
\<close>

definition enqueue_options ::
  "'n \<Rightarrow> ('n, 't) Options \<Rightarrow> ('n, 't) Options \<Rightarrow> ('n, 't) Options" where
  "enqueue_options FLUSH_RATE_LIMIT_MS hookOptions options =
     \<lparr>history = Some (or_else (history options) (or_else (history hookOptions) Replace)),
      scroll = Some (or_else (scroll options) (or_else (scroll hookOptions) False)),
      shallow = Some (or_else (shallow options) (or_else (shallow hookOptions) True)),
      throttleMs =
        Some (or_else (throttleMs options) (or_else (throttleMs hookOptions) FLUSH_RATE_LIMIT_MS)),
      startTransition =
        (case startTransition options of
           Some t \<Rightarrow> Some t
         | None \<Rightarrow> startTransition hookOptions),
      clearOnDefault = None\<rparr>"

text \<open>\<open>options.clearOnDefault || clearOnDefault\<close>: an absent member is falsy.\<close>

definition clear_enabled :: "('n, 't) Options \<Rightarrow> ('n, 't) Options \<Rightarrow> bool" where
  "clear_enabled hookOptions options =
     (or_else (clearOnDefault options) False \<or> or_else (clearOnDefault hookOptions) False)"

text \<open>
  \<open>config.eq ?? ((a, b) => a === b)\<close>. Strict equality of two values of the key's type
  (identity for objects, and \<open>NaN\<close> differs from itself) is the parameter \<open>strict_equal\<close>;
  \<open>null\<close>, \<open>undefined\<close> and a value are pairwise different.
\<close>

fun triple_equals :: "('v \<Rightarrow> 'v \<Rightarrow> bool) \<Rightarrow> 'v jsval \<Rightarrow> 'v jsval \<Rightarrow> bool" where
  "triple_equals strict_equal (Val a) (Val b) = strict_equal a b"
| "triple_equals strict_equal Null Null = True"
| "triple_equals strict_equal Undefined Undefined = True"
| "triple_equals strict_equal a b = False"

definition equals_default ::
  "('v \<Rightarrow> 'v \<Rightarrow> bool) \<Rightarrow> ('e, 'v) KeyMapValue \<Rightarrow> 'v jsval \<Rightarrow> bool" where
  "equals_default strict_equal config v =
     (case eq config of
        Some f \<Rightarrow> f v (defaultValue config)
      | None \<Rightarrow> triple_equals strict_equal v (defaultValue config))"

text \<open>
  The body of the loop over \<open>Object.entries(newState)\<close>:
  \<^verbatim>\<open>
  const config = keyMap[key]
  if (!config) { continue }
  if ((options.clearOnDefault || clearOnDefault) && value !== null &&
      config.defaultValue !== undefined &&
      (config.eq ?? ((a, b) => a === b))(value, config.defaultValue)) {
    value = null
  }
  emitter.emit(key, value)
  enqueueQueryStringUpdate(key, value, config.serialize ?? String, {...})
  \<close>
  \<open>config\<close> is falsy only when \<open>keyMap[key]\<close> is \<open>undefined\<close>: a declared configuration
  and an inherited property are both truthy.
\<close>

definition cleared_value ::
  "('v \<Rightarrow> 'v \<Rightarrow> bool) \<Rightarrow> ('n, 't) Options \<Rightarrow> ('n, 't) Options \<Rightarrow> ('e, 'v) KeyMapValue
     \<Rightarrow> 'v jsval \<Rightarrow> 'v jsval" where
  "cleared_value strict_equal hookOptions options config v =
     (if clear_enabled hookOptions options \<and> v \<noteq> Null \<and> defaultValue config \<noteq> Undefined \<and>
         equals_default strict_equal config v
      then Null else v)"

fun update_entries ::
  "('v \<Rightarrow> 'v \<Rightarrow> bool) \<Rightarrow> 'n \<Rightarrow> ('e, 'v) UseQueryStatesKeysMap \<Rightarrow> ('n, 't) Options
     \<Rightarrow> ('n, 't) Options \<Rightarrow> (string \<times> 'v jsval) list \<Rightarrow> ('v, 'n, 't, 'r) call list" where
  "update_entries strict_equal FLUSH_RATE_LIMIT_MS keyMap hookOptions options [] = []"
| "update_entries strict_equal FLUSH_RATE_LIMIT_MS keyMap hookOptions options
       ((key, v) # entries) =
     (case keyMap_get keyMap key of
        None \<Rightarrow>
          update_entries strict_equal FLUSH_RATE_LIMIT_MS keyMap hookOptions options entries
      | Some config \<Rightarrow>
          (let v' = cleared_value strict_equal hookOptions options config v
           in Emit key v' #
              EnqueueQueryStringUpdate key v'
                (case serialize config of Some f \<Rightarrow> Custom f | None \<Rightarrow> String_constructor)
                (enqueue_options FLUSH_RATE_LIMIT_MS hookOptions options) #
              update_entries strict_equal FLUSH_RATE_LIMIT_MS keyMap hookOptions options
                entries))"

text \<open>
  \<^verbatim>\<open>
  (stateUpdater, options = {}) => {
    const newState = typeof stateUpdater === 'function'
      ? stateUpdater(stateRef.current) : stateUpdater
    for (let [key, value] of Object.entries(newState)) { ... }
    return scheduleFlushToURL(router)
  }
  \<close>
  This is the function as one render creates it: the key map, the hook's options and
  the router are the ones that render's closure captured. The state updater is a new
  state, given by the list of its entries (in the order of \<open>Object.entries\<close>), or a
  function of the current state that returns one. An updater function and \<open>eq\<close> are
  functions that return. Omitted options are the options with every member absent.
  The result is the list of the calls made, and the position in that list of the
  call whose return value \<open>update\<close> returns.
\<close>

datatype ('s, 'v) state_updater = NewState "(string \<times> 'v jsval) list"
  | UpdaterFn "'s \<Rightarrow> (string \<times> 'v jsval) list"

definition new_state :: "('s, 'v) state_updater \<Rightarrow> 's \<Rightarrow> (string \<times> 'v jsval) list" where
  "new_state stateUpdater stateRef_current =
     (case stateUpdater of
        UpdaterFn f \<Rightarrow> f stateRef_current
      | NewState s \<Rightarrow> s)"

record ('v, 'n, 't, 'r) update_result =
  calls :: "('v, 'n, 't, 'r) call list"
  returned :: nat

definition update ::
  "('v \<Rightarrow> 'v \<Rightarrow> bool) \<Rightarrow> 'n \<Rightarrow> ('e, 'v) UseQueryStatesKeysMap \<Rightarrow> ('n, 't) Options \<Rightarrow> 'r \<Rightarrow> 's
     \<Rightarrow> ('s, 'v) state_updater \<Rightarrow> ('n, 't) Options \<Rightarrow> ('v, 'n, 't, 'r) update_result" where
  "update strict_equal FLUSH_RATE_LIMIT_MS keyMap hookOptions router stateRef_current
       stateUpdater options =
     (let newState = new_state stateUpdater stateRef_current;
          loop = update_entries strict_equal FLUSH_RATE_LIMIT_MS keyMap hookOptions options
                   newState
      in \<lparr>calls = loop @ [ScheduleFlushToURL router], returned = length loop\<rparr>)"

subsection \<open>The update function across renders\<close>

text \<open>
  One call of \<open>useQueryStates(keyMap, options)\<close> during a render: the key map with its
  identity as an object, the hook's options, and the router that \<open>useRouter()\<close>
  returned. A key map is not mutated: the same object has the same entries in every
  render.
\<close>

record ('e, 'v, 'n, 't, 'r) render =
  keyMap_identity :: nat
  render_keyMap :: "('e, 'v) UseQueryStatesKeysMap"
  render_options :: "('n, 't) Options"
  render_router :: 'r

text \<open>
  The dependency list \<open>[keyMap, history, shallow, scroll, throttleMs, startTransition]\<close>
  of \<open>React.useCallback\<close>, after the defaults of the destructuring. \<open>clearOnDefault\<close>
  and \<open>router\<close> are not in it. The key map is compared by identity.
\<close>

definition callback_deps ::
  "'n \<Rightarrow> ('e, 'v, 'n, 't, 'r) render
     \<Rightarrow> nat \<times> history_mode \<times> bool \<times> bool \<times> 'n \<times> 't option" where
  "callback_deps FLUSH_RATE_LIMIT_MS r =
     (keyMap_identity r,
      or_else (history (render_options r)) Replace,
      or_else (shallow (render_options r)) True,
      or_else (scroll (render_options r)) False,
      or_else (throttleMs (render_options r)) FLUSH_RATE_LIMIT_MS,
      startTransition (render_options r))"

text \<open>
  \<open>React.useCallback\<close> keeps the function of the render that last changed a
  dependency: a render whose dependencies equal the memoised ones returns the
  memoised function, any other render returns and memoises its own. The result is
  the render whose closure is the \<open>update\<close> returned after the first render and the
  later ones.
\<close>

fun useCallback_update ::
  "'n \<Rightarrow> ('e, 'v, 'n, 't, 'r) render \<Rightarrow> ('e, 'v, 'n, 't, 'r) render list
     \<Rightarrow> ('e, 'v, 'n, 't, 'r) render" where
  "useCallback_update FLUSH_RATE_LIMIT_MS memo [] = memo"
| "useCallback_update FLUSH_RATE_LIMIT_MS memo (r # later) =
     useCallback_update FLUSH_RATE_LIMIT_MS
       (if callback_deps FLUSH_RATE_LIMIT_MS memo = callback_deps FLUSH_RATE_LIMIT_MS r
        then memo else r)
       later"

text \<open>
  A call of the \<open>update\<close> function that the hook returned from its latest render.
\<close>

definition useQueryStates_update ::
  "('v \<Rightarrow> 'v \<Rightarrow> bool) \<Rightarrow> 'n \<Rightarrow> ('e, 'v, 'n, 't, 'r) render \<Rightarrow> ('e, 'v, 'n, 't, 'r) render list
     \<Rightarrow> 's \<Rightarrow> ('s, 'v) state_updater \<Rightarrow> ('n, 't) Options \<Rightarrow> ('v, 'n, 't, 'r) update_result" where
  "useQueryStates_update strict_equal FLUSH_RATE_LIMIT_MS first later stateRef_current
       stateUpdater options =
     (let closure = useCallback_update FLUSH_RATE_LIMIT_MS first later
      in update strict_equal FLUSH_RATE_LIMIT_MS (render_keyMap closure)
           (render_options closure) (render_router closure) stateRef_current stateUpdater
           options)"

subsection \<open>Auxiliary notions for the properties\<close>

text \<open>
  The value \<open>parseMap\<close> computes for a key, as a function of the configuration and of
  the raw query alone: \<open>value ?? defaultValue ?? null\<close>, with \<open>value\<close> the result of
  \<open>query === null ? null : safeParse(parse, query, key)\<close> without its logging.
\<close>

definition state_value :: "('e, 'v) KeyMapValue \<Rightarrow> string option \<Rightarrow> 'v jsval" where
  "state_value config query =
     coalesce
       (coalesce
          (case query of
             None \<Rightarrow> Null
           | Some q \<Rightarrow> (case parse config q of Inr r \<Rightarrow> r | Inl _ \<Rightarrow> Null))
          (defaultValue config))
       Null"

text \<open>Whether a recorded call is a call of \<open>scheduleFlushToURL\<close>.\<close>

fun is_flush :: "('v, 'n, 't, 'r) call \<Rightarrow> bool" where
  "is_flush (ScheduleFlushToURL r) = True"
| "is_flush (Emit key v) = False"
| "is_flush (EnqueueQueryStringUpdate key v ser opts) = False"

subsection \<open>Example inputs\<close>

text \<open>
  A key map with two keys, \<open>page\<close> with the default value 1 and \<open>size\<close> without a
  default, both parsed by a parser that throws on anything but a digit; hook options
  and call options. The values are numbers, so none of them is an object.
\<close>

definition parse_digit :: "(string, int) parser" where
  "parse_digit s =
     (if s = ''1'' then Inr (Val 1)
      else if s = ''2'' then Inr (Val 2)
      else if s = ''3'' then Inr (Val 3)
      else Inl (Thrown ''not a digit''))"

definition page_config :: "(string, int) KeyMapValue" where
  "page_config = \<lparr>parse = parse_digit, serialize = None, eq = None, defaultValue = Val 1\<rparr>"

definition size_config :: "(string, int) KeyMapValue" where
  "size_config =
     \<lparr>parse = parse_digit, serialize = None, eq = None, defaultValue = Undefined\<rparr>"

definition example_keyMap :: "(string, int) UseQueryStatesKeysMap" where
  "example_keyMap = [(''page'', page_config), (''size'', size_config)]"

definition example_hookOptions :: "(nat, unit) Options" where
  "example_hookOptions =
     \<lparr>history = None, scroll = None, shallow = Some False, throttleMs = None,
      startTransition = None, clearOnDefault = Some True\<rparr>"

definition example_options :: "(nat, unit) Options" where
  "example_options =
     \<lparr>history = Some Push, scroll = None, shallow = None, throttleMs = Some 0,
      startTransition = Some (), clearOnDefault = None\<rparr>"

definition no_options :: "(nat, unit) Options" where
  "no_options =
     \<lparr>history = None, scroll = None, shallow = None, throttleMs = None,
      startTransition = None, clearOnDefault = None\<rparr>"

definition number_is_object :: "int \<Rightarrow> bool" where
  "number_is_object n = False"

text \<open>
  Two renders of one hook: the first without \<open>clearOnDefault\<close>, the second with
  \<open>clearOnDefault: true\<close> and everything else unchanged.
\<close>

definition first_render :: "(string, int, nat, unit, unit) render" where
  "first_render =
     \<lparr>keyMap_identity = 0, render_keyMap = example_keyMap,
      render_options = no_options,
      render_router = ()\<rparr>"

definition second_render :: "(string, int, nat, unit, unit) render" where
  "second_render =
     \<lparr>keyMap_identity = 0, render_keyMap = example_keyMap,
      render_options =
        \<lparr>history = None, scroll = None, shallow = None, throttleMs = None,
         startTransition = None, clearOnDefault = Some True\<rparr>,
      render_router = ()\<rparr>"

section \<open>Properties of utils.ts\<close>

lemma getDefaultThrottle_cases:
  "getDefaultThrottle pf env = Inr 50 \<or> getDefaultThrottle pf env = Inr 120
     \<or> getDefaultThrottle pf env = Inr 320"
  by (simp add: getDefaultThrottle_def throttle_try_def split: option.split)

text \<open>
  C3: for every parser and every input string, \<open>safeParse\<close> returns the parser's result
  when the parser does not throw; when the parser throws it logs one warning and
  returns \<open>null\<close>; \<open>safeParse\<close> itself never throws.
\<close>

theorem safeParse_never_throws:
  "(parser v = Inr r \<longrightarrow> safeParse parser v key log = (Inr r, log)) \<and>
   (parser v = Inl err \<longrightarrow>
      safeParse parser v key log = (Inr Null, log @ [Warn (warn_format key) v err key])) \<and>
   (\<exists>r log'. safeParse parser v key log = (Inr r, log'))"
  by (cases "parser v") (simp_all add: safeParse_def)

theorem safeParse_never_throws_witness:
  "safeParse (\<lambda>s. if s = ''42'' then Inr (Val (42 :: int)) else Inl (Thrown ''NaN''))
      ''42'' (Some ''page'') [] = (Inr (Val 42), []) \<and>
   safeParse (\<lambda>s. if s = ''42'' then Inr (Val (42 :: int)) else Inl (Thrown ''NaN''))
      ''4x'' (Some ''page'') [] =
     (Inr Null,
      [Warn ''[nuqs] Error while parsing value `%s`: %O (for key `%s`)'' ''4x''
         (Thrown ''NaN'') (Some ''page'')])"
proof -
  let ?p = "\<lambda>s. if s = ''42'' then Inr (Val (42 :: int)) else Inl (Thrown ''NaN'')"
  have ok: "?p ''42'' = Inr (Val 42)" by simp
  have bad: "?p ''4x'' = Inl (Thrown ''NaN'')" by simp
  from ok safeParse_never_throws [of ?p "''42''" "Val 42" "Some ''page''" "[]"]
  have a: "safeParse ?p ''42'' (Some ''page'') [] = (Inr (Val 42), [])" by blast
  from bad safeParse_never_throws [of ?p "''4x''" _ "Some ''page''" "[]" "Thrown ''NaN''"]
  have b: "safeParse ?p ''4x'' (Some ''page'') [] =
      (Inr Null, [] @ [Warn (warn_format (Some ''page'')) ''4x'' (Thrown ''NaN'') (Some ''page'')])"
    by blast
  from a b show ?thesis by (simp add: warn_format_def)
qed

text \<open>
  C6: \<open>getDefaultThrottle\<close> never throws and always returns at least 50: it returns 50
  without a window, 50 when the browser is not Safari, 120 when the user agent
  matches the version pattern and the version compares \<open>>= 17\<close>, and 320 for every
  other Safari, including a missing or malformed user agent.
\<close>

theorem getDefaultThrottle_at_least_50:
  "(\<exists>ms. getDefaultThrottle pf env = Inr ms \<and> 50 \<le> ms) \<and>
   (\<not> window_defined env \<longrightarrow> getDefaultThrottle pf env = Inr 50) \<and>
   (window_defined env \<and> \<not> gestureEvent env \<longrightarrow> getDefaultThrottle pf env = Inr 50) \<and>
   (window_defined env \<and> gestureEvent env \<and> navigator_defined env \<and>
      userAgent env = Some ua \<and> match_version ua = Some version \<and> pf version
      \<longrightarrow> getDefaultThrottle pf env = Inr 120) \<and>
   (window_defined env \<and> gestureEvent env \<and>
      \<not> (navigator_defined env \<and>
          (\<exists>ua' version'. userAgent env = Some ua' \<and> match_version ua' = Some version'
              \<and> pf version'))
      \<longrightarrow> getDefaultThrottle pf env = Inr 320)"
proof -
  have "\<exists>ms. getDefaultThrottle pf env = Inr ms \<and> 50 \<le> ms"
    using getDefaultThrottle_cases [of pf env] by auto
  moreover have "\<not> window_defined env \<longrightarrow> getDefaultThrottle pf env = Inr 50"
    by (simp add: getDefaultThrottle_def)
  moreover have "window_defined env \<and> \<not> gestureEvent env
      \<longrightarrow> getDefaultThrottle pf env = Inr 50"
    by (simp add: getDefaultThrottle_def)
  moreover have "window_defined env \<and> gestureEvent env \<and> navigator_defined env \<and>
      userAgent env = Some ua \<and> match_version ua = Some version \<and> pf version
      \<longrightarrow> getDefaultThrottle pf env = Inr 120"
    by (simp add: getDefaultThrottle_def throttle_try_def)
  moreover have "window_defined env \<and> gestureEvent env \<and>
      \<not> (navigator_defined env \<and>
          (\<exists>ua' version'. userAgent env = Some ua' \<and> match_version ua' = Some version'
              \<and> pf version'))
      \<longrightarrow> getDefaultThrottle pf env = Inr 320"
    by (auto simp add: getDefaultThrottle_def throttle_try_def split: option.split)
  ultimately show ?thesis by blast
qed

theorem getDefaultThrottle_at_least_50_witness:
  "getDefaultThrottle (\<lambda>v. v = ''17.1'')
     \<lparr>window_defined = False, gestureEvent = False, navigator_defined = False,
      userAgent = None\<rparr> = Inr 50 \<and>
   getDefaultThrottle (\<lambda>v. v = ''17.1'')
     \<lparr>window_defined = True, gestureEvent = False, navigator_defined = True,
      userAgent = Some ''Mozilla/5.0 Chrome/120.0.0.0 Safari/537.36''\<rparr> = Inr 50 \<and>
   getDefaultThrottle (\<lambda>v. v = ''17.1'')
     \<lparr>window_defined = True, gestureEvent = True, navigator_defined = True,
      userAgent = Some ''Mozilla/5.0 Version/17.1 Safari/605.1.15''\<rparr> = Inr 120 \<and>
   getDefaultThrottle (\<lambda>v. v = ''17.1'')
     \<lparr>window_defined = True, gestureEvent = True, navigator_defined = True,
      userAgent = Some ''Mozilla/5.0 Version/16.6 Safari/604.1''\<rparr> = Inr 320 \<and>
   getDefaultThrottle (\<lambda>v. v = ''17.1'')
     \<lparr>window_defined = True, gestureEvent = True, navigator_defined = True,
      userAgent = None\<rparr> = Inr 320"
proof -
  let ?pf = "\<lambda>v. v = ''17.1''"
  have m17: "match_version ''Mozilla/5.0 Version/17.1 Safari/605.1.15'' = Some ''17.1''"
    by code_simp
  have m16: "match_version ''Mozilla/5.0 Version/16.6 Safari/604.1'' = Some ''16.6''"
    by code_simp
  have a: "getDefaultThrottle ?pf
     \<lparr>window_defined = False, gestureEvent = False, navigator_defined = False,
      userAgent = None\<rparr> = Inr 50"
    using getDefaultThrottle_at_least_50 [of ?pf
      "\<lparr>window_defined = False, gestureEvent = False, navigator_defined = False,
        userAgent = None\<rparr>"]
    by simp
  have b: "getDefaultThrottle ?pf
     \<lparr>window_defined = True, gestureEvent = False, navigator_defined = True,
      userAgent = Some ''Mozilla/5.0 Chrome/120.0.0.0 Safari/537.36''\<rparr> = Inr 50"
    using getDefaultThrottle_at_least_50 [of ?pf
      "\<lparr>window_defined = True, gestureEvent = False, navigator_defined = True,
        userAgent = Some ''Mozilla/5.0 Chrome/120.0.0.0 Safari/537.36''\<rparr>"]
    by simp
  have c: "getDefaultThrottle ?pf
     \<lparr>window_defined = True, gestureEvent = True, navigator_defined = True,
      userAgent = Some ''Mozilla/5.0 Version/17.1 Safari/605.1.15''\<rparr> = Inr 120"
    using m17 getDefaultThrottle_at_least_50 [of ?pf
      "\<lparr>window_defined = True, gestureEvent = True, navigator_defined = True,
        userAgent = Some ''Mozilla/5.0 Version/17.1 Safari/605.1.15''\<rparr>"
      "''Mozilla/5.0 Version/17.1 Safari/605.1.15''" "''17.1''"]
    by simp
  have d: "getDefaultThrottle ?pf
     \<lparr>window_defined = True, gestureEvent = True, navigator_defined = True,
      userAgent = Some ''Mozilla/5.0 Version/16.6 Safari/604.1''\<rparr> = Inr 320"
    using m16 getDefaultThrottle_at_least_50 [of ?pf
      "\<lparr>window_defined = True, gestureEvent = True, navigator_defined = True,
        userAgent = Some ''Mozilla/5.0 Version/16.6 Safari/604.1''\<rparr>"]
    by simp
  have e: "getDefaultThrottle ?pf
     \<lparr>window_defined = True, gestureEvent = True, navigator_defined = True,
      userAgent = None\<rparr> = Inr 320"
    using getDefaultThrottle_at_least_50 [of ?pf
      "\<lparr>window_defined = True, gestureEvent = True, navigator_defined = True,
        userAgent = None\<rparr>"]
    by simp
  from a b c d e show ?thesis by blast
qed

section \<open>Properties of parseMap\<close>

lemma safeParse_value:
  "\<exists>log'. safeParse (parse config) q key log
      = (Inr (case parse config q of Inr r \<Rightarrow> r | Inl _ \<Rightarrow> Null), log')"
  by (cases "parse config q") (simp_all add: safeParse_def)

lemma keyMap_get_declared:
  "map_of keyMap key = Some config \<Longrightarrow> keyMap_get keyMap key = Some config"
  by (simp add: keyMap_get_def)

lemma own_assign_property_other:
  "k \<noteq> key \<Longrightarrow> own (assign_property is_object obj key v) k = own obj k"
  by (simp add: assign_property_def split: jsval.split)

lemma own_assign_property_same:
  "key \<noteq> ''__proto__'' \<Longrightarrow> own (assign_property is_object obj key v) key = Some v"
  by (simp add: assign_property_def)

text \<open>
  For the keys of the key map, \<open>parseMap\<close> returns, and every key other than
  \<open>__proto__\<close> is an own property of the result, holding the value computed from
  the queued string if there is one and from the URL otherwise.
\<close>

lemma parseMap_reduce_total:
  "set keys \<subseteq> fst ` set keyMap \<Longrightarrow>
   \<exists>obj' log'. parseMap_reduce is_object keyMap searchParams getQueued keys (obj, log)
       = Inr (obj', log') \<and>
     (\<forall>k. k \<noteq> ''__proto__'' \<longrightarrow> own obj' k =
        (if k \<in> set keys
         then map_option
                (\<lambda>config. state_value config
                   (query_of (getQueued k) (searchParams_get searchParams k)))
                (map_of keyMap k)
         else own obj k))"
proof (induction keys arbitrary: obj log)
  case Nil
  then show ?case by simp
next
  case (Cons key keys)
  from Cons.prems have "key \<in> fst ` set keyMap" by simp
  then obtain config where cfg: "map_of keyMap key = Some config"
    by (metis map_of_eq_None_iff not_Some_eq)
  then have get: "keyMap_get keyMap key = Some config"
    by (rule keyMap_get_declared)
  let ?query = "query_of (getQueued key) (searchParams_get searchParams key)"
  let ?v = "state_value config ?query"
  let ?obj = "assign_property is_object obj key ?v"
  have step: "\<exists>log1. parseMap_reduce is_object keyMap searchParams getQueued (key # keys) (obj, log)
      = parseMap_reduce is_object keyMap searchParams getQueued keys (?obj, log1)"
  proof (cases ?query)
    case None
    then have "parseMap_reduce is_object keyMap searchParams getQueued (key # keys) (obj, log)
      = parseMap_reduce is_object keyMap searchParams getQueued keys (?obj, log)"
      using get by (simp add: state_value_def)
    then show ?thesis by blast
  next
    case (Some q)
    obtain log1 where "safeParse (parse config) q (Some key) log
        = (Inr (case parse config q of Inr r \<Rightarrow> r | Inl _ \<Rightarrow> Null), log1)"
      using safeParse_value by blast
    then have "parseMap_reduce is_object keyMap searchParams getQueued (key # keys) (obj, log)
      = parseMap_reduce is_object keyMap searchParams getQueued keys (?obj, log1)"
      using get Some by (simp add: state_value_def)
    then show ?thesis by blast
  qed
  then obtain log1 where
    eq1: "parseMap_reduce is_object keyMap searchParams getQueued (key # keys) (obj, log)
      = parseMap_reduce is_object keyMap searchParams getQueued keys (?obj, log1)" ..
  from Cons.prems have "set keys \<subseteq> fst ` set keyMap" by simp
  from Cons.IH [OF this, of ?obj log1]
  obtain obj' log' where
    r: "parseMap_reduce is_object keyMap searchParams getQueued keys (?obj, log1)
        = Inr (obj', log')"
    and v: "\<forall>k. k \<noteq> ''__proto__'' \<longrightarrow> own obj' k =
        (if k \<in> set keys
         then map_option
                (\<lambda>config. state_value config
                   (query_of (getQueued k) (searchParams_get searchParams k)))
                (map_of keyMap k)
         else own ?obj k)"
    by blast
  have "\<forall>k. k \<noteq> ''__proto__'' \<longrightarrow> own obj' k =
        (if k \<in> set (key # keys)
         then map_option
                (\<lambda>config. state_value config
                   (query_of (getQueued k) (searchParams_get searchParams k)))
                (map_of keyMap k)
         else own obj k)"
  proof (intro allI impI)
    fix k :: string
    assume k: "k \<noteq> ''__proto__''"
    show "own obj' k =
        (if k \<in> set (key # keys)
         then map_option
                (\<lambda>config. state_value config
                   (query_of (getQueued k) (searchParams_get searchParams k)))
                (map_of keyMap k)
         else own obj k)"
    proof (cases "k = key")
      case True
      with k v cfg show ?thesis by (simp add: own_assign_property_same)
    next
      case False
      with k v show ?thesis by (simp add: own_assign_property_other)
    qed
  qed
  with eq1 r show ?case by simp
qed

lemma parseMap_own_value:
  "\<exists>obj log'. parseMap is_object keyMap searchParams getQueued log = Inr (obj, log') \<and>
     (\<forall>k config. map_of keyMap k = Some config \<and> k \<noteq> ''__proto__'' \<longrightarrow>
        own obj k = Some (state_value config
                  (query_of (getQueued k) (searchParams_get searchParams k))))"
proof -
  have "set (map fst keyMap) \<subseteq> fst ` set keyMap" by simp
  from parseMap_reduce_total [OF this, of is_object searchParams getQueued empty_object log]
  obtain obj' log' where
    r: "parseMap_reduce is_object keyMap searchParams getQueued (map fst keyMap)
          (empty_object, log) = Inr (obj', log')"
    and v: "\<forall>k. k \<noteq> ''__proto__'' \<longrightarrow> own obj' k =
        (if k \<in> set (map fst keyMap)
         then map_option
                (\<lambda>config. state_value config
                   (query_of (getQueued k) (searchParams_get searchParams k)))
                (map_of keyMap k)
         else own empty_object k)"
    by blast
  have "\<forall>k config. map_of keyMap k = Some config \<and> k \<noteq> ''__proto__'' \<longrightarrow>
        own obj' k = Some (state_value config
                  (query_of (getQueued k) (searchParams_get searchParams k)))"
  proof (intro allI impI)
    fix k config assume m: "map_of keyMap k = Some config \<and> k \<noteq> ''__proto__''"
    then have "k \<in> set (map fst keyMap)" by (metis map_of_eq_None_iff option.distinct(1) set_map)
    with v m show "own obj' k = Some (state_value config
                  (query_of (getQueued k) (searchParams_get searchParams k)))" by simp
  qed
  with r show ?thesis unfolding parseMap_def by blast
qed

text \<open>
  C4: the code at a failing input. A removal is pending in the queue for \<open>page\<close>
  (the queue holds \<open>null\<close> for it), and the URL still has \<open>page\<close>. \<open>parseMap\<close> reads
  the state of \<open>page\<close> from the URL, and it follows the URL's value (2, then 3): the
  pending value does not take precedence.
\<close>

theorem parseMap_pending_removal_reads_url:
  "[''page'' \<mapsto> None] ''page'' = Some (None :: string option) \<and>
   parseMap number_is_object example_keyMap (Some [(''page'', ''2'')])
       (getQueuedValue [''page'' \<mapsto> None]) []
     = Inr (\<lparr>own = [''page'' \<mapsto> Val 2, ''size'' \<mapsto> Null], prototype = Object_prototype\<rparr>, []) \<and>
   parseMap number_is_object example_keyMap (Some [(''page'', ''3'')])
       (getQueuedValue [''page'' \<mapsto> None]) []
     = Inr (\<lparr>own = [''page'' \<mapsto> Val 3, ''size'' \<mapsto> Null], prototype = Object_prototype\<rparr>, [])"
  by (simp add: parseMap_def example_keyMap_def page_config_def size_config_def
      getQueuedValue_def searchParams_get_def safeParse_def parse_digit_def keyMap_get_def
      assign_property_def empty_object_def)

text \<open>
  C5: the code at a failing input. The key map declares the key \<open>__proto__\<close> with the
  default value 1, and \<open>size\<close>; nothing is queued and the URL has only \<open>size\<close>. The
  result has no state for \<open>__proto__\<close>: the assignment runs the prototype's setter,
  which drops the number. When the key has no default, the value is \<open>null\<close> and the
  assignment removes the prototype of the result instead of storing a state.
\<close>

theorem parseMap_stores_nothing_for_proto_key:
  "parseMap number_is_object [(''__proto__'', page_config), (''size'', size_config)]
       (Some [(''size'', ''2'')]) (getQueuedValue Map.empty) []
     = Inr (\<lparr>own = [''size'' \<mapsto> Val 2], prototype = Object_prototype\<rparr>, []) \<and>
   parseMap number_is_object [(''__proto__'', size_config)] None (getQueuedValue Map.empty) []
     = Inr (\<lparr>own = Map.empty, prototype = Null_prototype\<rparr>, [])"
  by (simp add: parseMap_def page_config_def size_config_def
      getQueuedValue_def searchParams_get_def safeParse_def parse_digit_def keyMap_get_def
      assign_property_def empty_object_def number_is_object_def)

section \<open>Properties of update\<close>

lemma update_entries_append:
  "update_entries se F km ho co (xs @ ys)
     = update_entries se F km ho co xs @ update_entries se F km ho co ys"
  by (induction xs) (auto simp: Let_def split: option.split)

lemma update_entries_no_flush:
  "filter is_flush (update_entries se F km ho co entries) = []"
  by (induction entries) (auto simp: Let_def split: option.split)

lemma update_entries_missing:
  "keyMap_get km key = None \<Longrightarrow>
   update_entries se F km ho co (filter (\<lambda>(k, v). k \<noteq> key) entries)
     = update_entries se F km ho co entries"
  by (induction entries) (auto simp: Let_def split: option.split)

lemma update_entries_calls:
  "c \<in> set (update_entries se F km ho co entries) \<Longrightarrow>
   \<exists>key v config. (key, v) \<in> set entries \<and> keyMap_get km key = Some config \<and>
     (c = Emit key (cleared_value se ho co config v) \<or>
      c = EnqueueQueryStringUpdate key (cleared_value se ho co config v)
            (case serialize config of Some f \<Rightarrow> Custom f | None \<Rightarrow> String_constructor)
            (enqueue_options F ho co))"
proof (induction entries)
  case Nil
  then show ?case by simp
next
  case (Cons e entries)
  obtain k v where e: "e = (k, v)" by (cases e)
  show ?case
  proof (cases "keyMap_get km k")
    case None
    with Cons e show ?thesis by auto
  next
    case (Some config)
    with Cons.prems e have
      "c = Emit k (cleared_value se ho co config v) \<or>
       c = EnqueueQueryStringUpdate k (cleared_value se ho co config v)
            (case serialize config of Some f \<Rightarrow> Custom f | None \<Rightarrow> String_constructor)
            (enqueue_options F ho co) \<or>
       c \<in> set (update_entries se F km ho co entries)"
      by (auto simp: Let_def)
    then show ?thesis
    proof (elim disjE)
      assume "c \<in> set (update_entries se F km ho co entries)"
      from Cons.IH [OF this] show ?thesis by (metis list.set_intros(2))
    qed (use e Some in \<open>metis list.set_intros(1)\<close>)+
  qed
qed

text \<open>
  C1: every call of \<open>update\<close> calls \<open>scheduleFlushToURL\<close> exactly once, however many
  entries the new state has; that call is the last one made, and what \<open>update\<close>
  returns is what that call returned.
\<close>

theorem update_schedules_one_flush:
  "length (filter is_flush (calls (update se F km ho router cur su co))) = 1 \<and>
   Suc (returned (update se F km ho router cur su co))
     = length (calls (update se F km ho router cur su co)) \<and>
   calls (update se F km ho router cur su co) ! returned (update se F km ho router cur su co)
     = ScheduleFlushToURL router"
  by (simp add: update_def Let_def update_entries_no_flush nth_append)

lemma update_calls:
  "calls (update se F km ho router cur su co)
     = update_entries se F km ho co (new_state su cur) @ [ScheduleFlushToURL router]"
  by (simp add: update_def Let_def)

lemma update_entries_at:
  "map_of km key = Some config \<Longrightarrow>
   update_entries se F km ho co (before @ (key, v) # after)
     = update_entries se F km ho co before @
       [Emit key (cleared_value se ho co config v),
        EnqueueQueryStringUpdate key (cleared_value se ho co config v)
          (case serialize config of Some f \<Rightarrow> Custom f | None \<Rightarrow> String_constructor)
          (enqueue_options F ho co)] @
       update_entries se F km ho co after"
  by (simp add: update_entries_append keyMap_get_declared Let_def)



text \<open>
  A key that \<open>keyMap[key]\<close> does not find, neither declared nor inherited from
  \<open>Object.prototype\<close>, is skipped: no event is emitted and nothing is enqueued for it,
  and the result is the same as for the new state without the entries of that key.
\<close>

lemma update_skips_missing_keys:
  fixes router :: 'r and km :: "('e, 'v) UseQueryStatesKeysMap" and ho :: "('n, 't) Options"
  assumes "keyMap_get km key = None"
  shows "(\<forall>v. Emit key v \<notin> set (calls (update se F km ho router cur su co))) \<and>
    (\<forall>v ser opts.
       EnqueueQueryStringUpdate key v ser opts \<notin> set (calls (update se F km ho router cur su co))) \<and>
    update se F km ho router cur su co
      = update se F km ho router cur
          (NewState (filter (\<lambda>(k, v). k \<noteq> key) (new_state su cur))) co"
proof -
  have a: "Emit key v \<notin> set (calls (update se F km ho router cur su co))" for v
  proof
    assume "Emit key v \<in> set (calls (update se F km ho router cur su co))"
    then have "Emit key v \<in> set (update_entries se F km ho co (new_state su cur)
        :: ('v, 'n, 't, 'r) call list)"
      by (simp add: update_calls)
    from update_entries_calls [OF this] assms show False by auto
  qed
  have b: "EnqueueQueryStringUpdate key v ser opts
      \<notin> set (calls (update se F km ho router cur su co))" for v ser opts
  proof
    assume "EnqueueQueryStringUpdate key v ser opts
      \<in> set (calls (update se F km ho router cur su co))"
    then have "EnqueueQueryStringUpdate key v ser opts
      \<in> set (update_entries se F km ho co (new_state su cur) :: ('v, 'n, 't, 'r) call list)"
      by (simp add: update_calls)
    from update_entries_calls [OF this] assms show False by auto
  qed
  have c: "update se F km ho router cur su co
      = update se F km ho router cur
          (NewState (filter (\<lambda>(k, v). k \<noteq> key) (new_state su cur))) co"
    by (simp add: update_def new_state_def Let_def update_entries_missing [OF assms]
        split: state_updater.split)
  from a b c show ?thesis by blast
qed

text \<open>
  C8: the code at a failing input. The key map declares \<open>page\<close> and \<open>size\<close>; the new
  state has the undeclared key \<open>constructor\<close>. \<open>keyMap['constructor']\<close> is the function
  inherited from \<open>Object.prototype\<close>, which is truthy, so the key is not skipped: the
  event is emitted and the update is enqueued, with \<open>String\<close> as the serializer.
\<close>

theorem update_processes_inherited_key:
  "map_of example_keyMap ''constructor'' = None \<and>
   calls (update (=) 50 example_keyMap example_hookOptions () ()
       (NewState [(''constructor'', Val 3)]) example_options)
     = [Emit ''constructor'' (Val 3),
        EnqueueQueryStringUpdate ''constructor'' (Val 3) String_constructor
          (enqueue_options 50 example_hookOptions example_options),
        ScheduleFlushToURL ()]"
  by (simp add: update_def new_state_def Let_def example_keyMap_def keyMap_get_def
      object_prototype_names_def inherited_member_def cleared_value_def)

lemma or_else_case: "or_else x d = (case x of Some y \<Rightarrow> y | None \<Rightarrow> d)"
  by (cases x) simp_all

text \<open>
  C10: in every update enqueued by \<open>update\<close>, each of \<open>history\<close>, \<open>shallow\<close>, \<open>scroll\<close>,
  \<open>throttleMs\<close> and \<open>startTransition\<close> is the call's option when the call gives one;
  otherwise it is the hook's option, which defaults to \<open>'replace'\<close>, \<open>true\<close>, \<open>false\<close>
  and \<open>FLUSH_RATE_LIMIT_MS\<close> (\<open>startTransition\<close> has no default).
\<close>

theorem update_call_options_take_precedence:
  fixes router :: 'r and opts :: "('n, 't) Options" and v :: "'v jsval"
  assumes "EnqueueQueryStringUpdate key v ser opts
     \<in> set (calls (update se F km ho router cur su co))"
  shows "history opts
       = Some (case history co of Some h \<Rightarrow> h
               | None \<Rightarrow> (case history ho of Some h \<Rightarrow> h | None \<Rightarrow> Replace)) \<and>
     shallow opts
       = Some (case shallow co of Some b \<Rightarrow> b
               | None \<Rightarrow> (case shallow ho of Some b \<Rightarrow> b | None \<Rightarrow> True)) \<and>
     scroll opts
       = Some (case scroll co of Some b \<Rightarrow> b
               | None \<Rightarrow> (case scroll ho of Some b \<Rightarrow> b | None \<Rightarrow> False)) \<and>
     throttleMs opts
       = Some (case throttleMs co of Some ms \<Rightarrow> ms
               | None \<Rightarrow> (case throttleMs ho of Some ms \<Rightarrow> ms | None \<Rightarrow> F)) \<and>
     startTransition opts
       = (case startTransition co of Some t \<Rightarrow> Some t | None \<Rightarrow> startTransition ho)"
proof -
  from assms have "EnqueueQueryStringUpdate key v ser opts
      \<in> set (update_entries se F km ho co (new_state su cur) :: ('v, 'n, 't, 'r) call list)"
    by (simp add: update_calls)
  from update_entries_calls [OF this] have "opts = enqueue_options F ho co"
    by auto
  then show ?thesis
    by (simp add: enqueue_options_def or_else_case)
qed

theorem update_call_options_take_precedence_witness:
  "EnqueueQueryStringUpdate ''page'' (Val 2) String_constructor
       (enqueue_options 50 example_hookOptions example_options)
     \<in> set (calls (update (=) 50 example_keyMap example_hookOptions () ()
          (NewState [(''page'', Val 2)]) example_options)) \<and>
   history (enqueue_options 50 example_hookOptions example_options) = Some Push \<and>
   shallow (enqueue_options 50 example_hookOptions example_options) = Some False \<and>
   scroll (enqueue_options 50 example_hookOptions example_options) = Some False \<and>
   throttleMs (enqueue_options 50 example_hookOptions example_options) = Some 0 \<and>
   startTransition (enqueue_options 50 example_hookOptions example_options) = Some ()"
proof -
  have mem: "EnqueueQueryStringUpdate ''page'' (Val 2) String_constructor
       (enqueue_options 50 example_hookOptions example_options)
     \<in> set (calls (update (=) 50 example_keyMap example_hookOptions () ()
          (NewState [(''page'', Val 2)]) example_options))"
    by (simp add: update_def new_state_def Let_def example_keyMap_def page_config_def
        cleared_value_def equals_default_def keyMap_get_def)
  from update_call_options_take_precedence [OF mem] mem
  show ?thesis by (simp add: example_hookOptions_def example_options_def)
qed

section \<open>Properties of update across renders\<close>

text \<open>
  The function that one render creates clears a value equal to the default when
  \<open>clearOnDefault\<close> is enabled by the call or by the options that render captured.
\<close>

lemma update_clears_with_captured_options:
  assumes "clearOnDefault co = Some True \<or> clearOnDefault ho = Some True"
    and "v \<noteq> Null"
    and "defaultValue config \<noteq> Undefined"
    and "equals_default se config v"
    and "map_of km key = Some config"
    and "new_state su cur = before @ (key, v) # after"
  shows "calls (update se F km ho router cur su co)
     = update_entries se F km ho co before @
       [Emit key Null,
        EnqueueQueryStringUpdate key Null
          (case serialize config of Some f \<Rightarrow> Custom f | None \<Rightarrow> String_constructor)
          (enqueue_options F ho co)] @
       update_entries se F km ho co after @ [ScheduleFlushToURL router]"
proof -
  from assms(1) have "clear_enabled ho co"
    by (auto simp: clear_enabled_def)
  with assms(2-4) have "cleared_value se ho co config v = Null"
    by (simp add: cleared_value_def)
  with assms(5,6) show ?thesis
    by (simp add: update_calls update_entries_at)
qed

text \<open>
  The memoised function has the dependencies of the latest render: its key map is
  the same object, and its \<open>history\<close>, \<open>shallow\<close>, \<open>scroll\<close>, \<open>throttleMs\<close> and
  \<open>startTransition\<close> are the current ones. Nothing of the kind holds for
  \<open>clearOnDefault\<close>, which is not a dependency.
\<close>

lemma useCallback_update_deps:
  "callback_deps F (useCallback_update F memo later) = callback_deps F (last (memo # later))"
  by (induction later arbitrary: memo) auto

text \<open>
  C9: the code at a failing input. A hook with the key \<open>page\<close>, default value 1, is
  rendered first without \<open>clearOnDefault\<close> and then with \<open>clearOnDefault: true\<close>,
  everything else unchanged. No dependency of \<open>useCallback\<close> has changed, so the
  second render returns the function of the first, which still reads
  \<open>clearOnDefault = false\<close>: setting \<open>page\<close> to 1 emits and enqueues 1, not \<open>null\<close>.
  A hook mounted with \<open>clearOnDefault: true\<close> emits and enqueues \<open>null\<close>.
\<close>

theorem useQueryStates_update_stale_clearOnDefault:
  "clearOnDefault (render_options second_render) = Some True \<and>
   calls (useQueryStates_update (=) 50 first_render [second_render] ()
       (NewState [(''page'', Val 1)]) no_options)
     = [Emit ''page'' (Val 1),
        EnqueueQueryStringUpdate ''page'' (Val 1) String_constructor
          (enqueue_options 50 no_options no_options),
        ScheduleFlushToURL ()] \<and>
   calls (useQueryStates_update (=) 50 second_render [] ()
       (NewState [(''page'', Val 1)]) no_options)
     = [Emit ''page'' Null,
        EnqueueQueryStringUpdate ''page'' Null String_constructor
          (enqueue_options 50 (render_options second_render) no_options),
        ScheduleFlushToURL ()]"
  by (simp add: useQueryStates_update_def callback_deps_def first_render_def
      second_render_def no_options_def update_def new_state_def Let_def example_keyMap_def
      keyMap_get_def page_config_def cleared_value_def clear_enabled_def equals_default_def)

end
